theory Spec2Isabelle
  imports Main "HOL-Library.Char_ord" "HOL-Library.List_Lexorder"
begin

section \<open>The DevTools file-system bridge of CommonWebContentsDelegate\<close>

text \<open>
  This theory embeds the DevTools part of \<^verbatim>\<open>atom::CommonWebContentsDelegate\<close>
  (the second translation unit of \<^verbatim>\<open>src/atom/common/javascript_bindings.cc\<close>, lines
  384 to 937): the persisted registry of added file-system paths, the tracker of
  indexing jobs and the cache of saved files.

  The delegate is single-threaded glue over Chromium services. Each member function
  becomes a function on a record of the delegate's fields. Every call the delegate
  makes to a collaborator (the isolated context, the security policy, the front end,
  the file task runner, the file picker, the indexer) is appended, in program order,
  to the field \<open>effects\<close>, so that what was asked of whom, and in which order, can be
  read off the state. A null dereference and a failed \<^verbatim>\<open>DCHECK\<close> are values of the
  type \<open>crash\<close>.
\<close>

subsection \<open>Values and ordered maps\<close>

text \<open>\<^verbatim>\<open>base::FilePath\<close>; \<^verbatim>\<open>FromUTF8Unsafe\<close> and \<^verbatim>\<open>AsUTF8Unsafe\<close> are the identity here.\<close>

type_synonym FilePath = string

text \<open>The kinds of \<^verbatim>\<open>base::Value\<close> the delegate builds or reads.\<close>

datatype Value =
    IntegerValue int
  | StringValue string
  | ListValue "Value list"
  | DictionaryValue "(string \<times> Value) list"

text \<open>
  \<^verbatim>\<open>std::map\<close> and the storage of \<^verbatim>\<open>base::DictionaryValue\<close> where the code iterates
  over them: a list of entries in ascending key order (\<^verbatim>\<open>std::string\<close> compares bytes
  lexicographically, as the order on \<open>string\<close> does). \<open>map_assign\<close> is
  \<^verbatim>\<open>m[k] = v\<close>, \<open>map_erase\<close> is \<^verbatim>\<open>m.erase(k)\<close>.
\<close>

fun map_assign :: "'k::linorder \<Rightarrow> 'v \<Rightarrow> ('k \<times> 'v) list \<Rightarrow> ('k \<times> 'v) list" where
  "map_assign k v [] = [(k, v)]"
| "map_assign k v ((k', v') # m) =
     (if k < k' then (k, v) # (k', v') # m
      else if k = k' then (k, v) # m
      else (k', v') # map_assign k v m)"

fun map_erase :: "'k \<Rightarrow> ('k \<times> 'v) list \<Rightarrow> ('k \<times> 'v) list" where
  "map_erase k [] = []"
| "map_erase k ((k', v') # m) =
     (if k = k' then map_erase k m else (k', v') # map_erase k m)"

definition HasKey :: "(string \<times> Value) list \<Rightarrow> string \<Rightarrow> bool" where
  "HasKey d key = (key \<in> set (map fst d))"

definition SetWithoutPathExpansion ::
  "string \<Rightarrow> Value \<Rightarrow> (string \<times> Value) list \<Rightarrow> (string \<times> Value) list" where
  "SetWithoutPathExpansion key v d = map_assign key v d"

definition RemoveWithoutPathExpansion ::
  "string \<Rightarrow> (string \<times> Value) list \<Rightarrow> (string \<times> Value) list" where
  "RemoveWithoutPathExpansion key d = map_erase key d"

definition SetString ::
  "string \<Rightarrow> string \<Rightarrow> (string \<times> Value) list \<Rightarrow> (string \<times> Value) list" where
  "SetString key str d = map_assign key (StringValue str) d"

subsection \<open>The delegate and its collaborators\<close>

record FileSystem =
  type :: string
  file_system_name :: string
  root_url :: string
  file_system_path :: string

definition kRootName :: string where
  "kRootName = ''<root>''"

text \<open>
  What the code reads of the DevTools \<^verbatim>\<open>content::WebContents\<close> behind
  \<^verbatim>\<open>web_contents_\<close>: the id of its renderer process and the origin of its URL.
  \<^verbatim>\<open>GetDevToolsWebContents()\<close> returns null when \<^verbatim>\<open>web_contents_\<close> is null; an
  inspectable web contents that exists is taken to have its DevTools web contents, since
  the functions below are called by that front end.
\<close>

record WebContents =
  renderer_id :: int
  origin :: string

text \<open>
  The member functions of the delegate that are called from outside: by the DevTools
  front end (\<open>Call_DevTools...\<close>) and, as bound callbacks, by the file picker, the
  file task runner and the indexer (\<open>Call_On...\<close>). A value of this type is one call
  with its arguments; a constructor applied to its first arguments only is the
  \<^verbatim>\<open>base::Bind\<close> of the member function to these arguments.
\<close>

datatype call =
    Call_DevToolsSaveToFile string string bool
  | Call_DevToolsAppendToFile string string
  | Call_DevToolsRequestFileSystems
  | Call_DevToolsAddFileSystem FilePath string
  | Call_DevToolsRemoveFileSystem FilePath
  | Call_DevToolsIndexPath int string
  | Call_DevToolsStopIndexing int
  | Call_DevToolsSearchInPath int string string
  | Call_OnSaveFileSelected string string "FilePath list"
  | Call_OnSaveFileSelectionCancelled string
  | Call_OnAddFileSelected string "FilePath list"
  | Call_OnAddFileSelectionCancelled
  | Call_OnDevToolsSaveToFile string
  | Call_OnDevToolsAppendToFile string
  | Call_OnDevToolsIndexingWorkCalculated int string int
  | Call_OnDevToolsIndexingWorked int string int
  | Call_OnDevToolsIndexingDone int string
  | Call_OnDevToolsSearchCompleted int string "string list"

text \<open>
  The two functions posted to the file task runner, bound to their arguments. Their
  bodies call \<^verbatim>\<open>base::WriteFile\<close> and \<^verbatim>\<open>base::AppendToFile\<close> on the background
  sequence; a file is written exactly when such a task has been posted.
\<close>

datatype task =
    Bind_WriteToFile FilePath string
  | Bind_AppendToFile FilePath string

datatype SelectFileDialog_Type = SELECT_SAVEAS_FILE | SELECT_FOLDER

text \<open>
  The calls to collaborators:
  \<^item> \<open>RegisterFileSystemForPath path id\<close>: the isolated context registered \<open>path\<close> and
    returned \<open>id\<close>; \<open>RevokeFileSystemByPath\<close>;
  \<^item> the five grants of \<^verbatim>\<open>content::ChildProcessSecurityPolicy\<close>;
  \<^item> \<open>CallClientFunction name arg1 arg2 arg3\<close>: the notification of the front end
    (\<open>None\<close> is \<^verbatim>\<open>nullptr\<close>);
  \<^item> \<open>PostTaskAndReply task reply\<close> on \<^verbatim>\<open>file_task_runner_\<close>;
  \<^item> \<open>FileEntryPicker default_path type on_selected on_cancelled\<close>: a picker was opened;
  \<^item> \<open>IndexPath path on_total on_worked on_done\<close>, \<open>Stop job\<close> and
    \<open>SearchInPath path query on_done\<close> of the indexer. A job is named by the position
    of its \<open>IndexPath\<close> call in the log.
\<close>

datatype effect =
    RegisterFileSystemForPath FilePath string
  | RevokeFileSystemByPath FilePath
  | GrantReadFileSystem int string
  | GrantWriteFileSystem int string
  | GrantCreateFileForFileSystem int string
  | GrantDeleteFromFileSystem int string
  | GrantReadFile int FilePath
  | CallClientFunction string "Value option" "Value option" "Value option"
  | PostTaskAndReply task call
  | FileEntryPicker FilePath SelectFileDialog_Type "FilePath list \<Rightarrow> call" call
  | IndexPath string "int \<Rightarrow> call" "int \<Rightarrow> call" call
  | Stop nat
  | SearchInPath string string "string list \<Rightarrow> call"

text \<open>
  What the Chromium services answer. Their code is not part of this repository, so
  each answer is a parameter: the id the isolated context returns for a path and
  what the security policy says about a file (both may depend on the calls made so
  far), the two string functions of \<^verbatim>\<open>storage::\<close>, and the default download
  directory with the url appended.
\<close>

record collaborators =
  RegisterFileSystemForPath_id :: "effect list \<Rightarrow> FilePath \<Rightarrow> string"
  CanReadFile :: "effect list \<Rightarrow> int \<Rightarrow> FilePath \<Rightarrow> bool"
  GetIsolatedFileSystemName :: "string \<Rightarrow> string \<Rightarrow> string"
  GetIsolatedFileSystemRootURIString :: "string \<Rightarrow> string \<Rightarrow> string \<Rightarrow> string"
  DIR_DEFAULT_DOWNLOADS_Append :: "string \<Rightarrow> FilePath"

text \<open>
  The delegate with the preference it reads and writes:
  \<^item> \<open>web_contents\<close> (\<^verbatim>\<open>web_contents_\<close>; a name cannot end in an underscore
    here): \<open>None\<close> is the null pointer;
  \<^item> \<open>saved_files\<close>: \<^verbatim>\<open>std::map<std::string, base::FilePath> saved_files_\<close>, url to path;
  \<^item> \<open>devtools_indexing_jobs\<close>:
    \<^verbatim>\<open>std::map<int, scoped_refptr<FileSystemIndexingJob>> devtools_indexing_jobs_\<close>;
  \<^item> \<open>kDevToolsFileSystemPaths\<close>: what \<^verbatim>\<open>GetDictionary(prefs::kDevToolsFileSystemPaths)\<close>
    returns, \<open>None\<close> being the null pointer (the preference is not registered).
  The request id is a C \<^verbatim>\<open>int\<close> that the code only compares and copies.
\<close>

record delegate =
  web_contents :: "WebContents option"
  saved_files :: "string \<rightharpoonup> FilePath"
  devtools_indexing_jobs :: "int \<rightharpoonup> nat"
  kDevToolsFileSystemPaths :: "(string \<times> Value) list option"
  env :: collaborators
  effects :: "effect list"

datatype crash = NullWebContents | NullDictionary | EmptyPaths

definition emit :: "effect \<Rightarrow> delegate \<Rightarrow> delegate" where
  "emit e s = s\<lparr>effects := effects s @ [e]\<rparr>"

text \<open>\<^verbatim>\<open>web_contents_->CallClientFunction(name, arg1, arg2, arg3)\<close>.\<close>

definition web_contents_CallClientFunction ::
  "string \<Rightarrow> Value option \<Rightarrow> Value option \<Rightarrow> Value option \<Rightarrow> delegate \<Rightarrow> crash + delegate" where
  "web_contents_CallClientFunction name arg1 arg2 arg3 s =
     (case web_contents s of
        None \<Rightarrow> Inl NullWebContents
      | Some wc \<Rightarrow> Inr (emit (CallClientFunction name arg1 arg2 arg3) s))"

subsection \<open>The helpers of the anonymous namespace\<close>

text \<open>
  \<^verbatim>\<open>GetPrefService(GetDevToolsWebContents())->GetDictionary(prefs::kDevToolsFileSystemPaths)\<close>:
  \<^verbatim>\<open>GetPrefService\<close> dereferences the web contents.
\<close>

definition GetPrefService :: "delegate \<Rightarrow> crash + (string \<times> Value) list option" where
  "GetPrefService s =
     (case web_contents s of
        None \<Rightarrow> Inl NullWebContents
      | Some wc \<Rightarrow> Inr (kDevToolsFileSystemPaths s))"

definition RegisterFileSystem :: "delegate \<Rightarrow> FilePath \<Rightarrow> crash + (string \<times> delegate)" where
  "RegisterFileSystem s path =
     (let file_system_id = RegisterFileSystemForPath_id (env s) (effects s) path;
          s1 = emit (RegisterFileSystemForPath path file_system_id) s
      in case web_contents s1 of
           None \<Rightarrow> Inl NullWebContents
         | Some wc \<Rightarrow>
             (let rid = renderer_id wc;
                  s2 = emit (GrantReadFileSystem rid file_system_id) s1;
                  s3 = emit (GrantWriteFileSystem rid file_system_id) s2;
                  s4 = emit (GrantCreateFileForFileSystem rid file_system_id) s3;
                  s5 = emit (GrantDeleteFromFileSystem rid file_system_id) s4;
                  s6 = (if \<not> CanReadFile (env s5) (effects s5) rid path
                        then emit (GrantReadFile rid path) s5 else s5)
              in Inr (file_system_id, s6)))"

definition CreateFileSystemStruct ::
  "delegate \<Rightarrow> string \<Rightarrow> string \<Rightarrow> string \<Rightarrow> crash + FileSystem" where
  "CreateFileSystemStruct s ty file_system_id path =
     (case web_contents s of
        None \<Rightarrow> Inl NullWebContents
      | Some wc \<Rightarrow>
          Inr \<lparr>type = ty,
               file_system_name = GetIsolatedFileSystemName (env s) (origin wc) file_system_id,
               root_url =
                 GetIsolatedFileSystemRootURIString (env s) (origin wc) file_system_id kRootName,
               file_system_path = path\<rparr>)"

definition CreateFileSystemValue :: "FileSystem \<Rightarrow> Value" where
  "CreateFileSystemValue file_system =
     DictionaryValue
       (SetString ''fileSystemPath'' (file_system_path file_system)
         (SetString ''rootURL'' (root_url file_system)
           (SetString ''fileSystemName'' (file_system_name file_system)
             (SetString ''type'' (type file_system) []))))"

text \<open>The loop of \<^verbatim>\<open>GetAddedFileSystemPaths\<close> over the dictionary's iterator.\<close>

fun added_paths_loop :: "(string \<times> Value) list \<Rightarrow> (string \<times> string) list \<Rightarrow> (string \<times> string) list" where
  "added_paths_loop [] result = result"
| "added_paths_loop ((key, v) # it) result =
     added_paths_loop it
       (map_assign key (case v of StringValue str \<Rightarrow> str | _ \<Rightarrow> []) result)"

definition GetAddedFileSystemPaths :: "delegate \<Rightarrow> crash + (string \<times> string) list" where
  "GetAddedFileSystemPaths s =
     (case GetPrefService s of
        Inl e \<Rightarrow> Inl e
      | Inr None \<Rightarrow> Inr []
      | Inr (Some file_system_paths_value) \<Rightarrow> Inr (added_paths_loop file_system_paths_value []))"

definition IsDevToolsFileSystemAdded :: "delegate \<Rightarrow> string \<Rightarrow> crash + bool" where
  "IsDevToolsFileSystemAdded s path =
     (case GetPrefService s of
        Inl e \<Rightarrow> Inl e
      | Inr None \<Rightarrow> Inl NullDictionary
      | Inr (Some file_systems_paths_value) \<Rightarrow> Inr (HasKey file_systems_paths_value path))"

subsection \<open>The member functions\<close>

definition OnDevToolsSaveToFile :: "string \<Rightarrow> delegate \<Rightarrow> crash + delegate" where
  "OnDevToolsSaveToFile url s =
     web_contents_CallClientFunction ''DevToolsAPI.savedURL'' (Some (StringValue url)) None None s"

definition OnDevToolsAppendToFile :: "string \<Rightarrow> delegate \<Rightarrow> crash + delegate" where
  "OnDevToolsAppendToFile url s =
     web_contents_CallClientFunction ''DevToolsAPI.appendedToURL'' (Some (StringValue url)) None None s"

definition OnDevToolsIndexingWorkCalculated ::
  "int \<Rightarrow> string \<Rightarrow> int \<Rightarrow> delegate \<Rightarrow> crash + delegate" where
  "OnDevToolsIndexingWorkCalculated request_id path total_work s =
     web_contents_CallClientFunction ''DevToolsAPI.indexingTotalWorkCalculated''
       (Some (IntegerValue request_id)) (Some (StringValue path))
       (Some (IntegerValue total_work)) s"

definition OnDevToolsIndexingWorked ::
  "int \<Rightarrow> string \<Rightarrow> int \<Rightarrow> delegate \<Rightarrow> crash + delegate" where
  "OnDevToolsIndexingWorked request_id path worked s =
     web_contents_CallClientFunction ''DevToolsAPI.indexingWorked''
       (Some (IntegerValue request_id)) (Some (StringValue path))
       (Some (IntegerValue worked)) s"

definition OnDevToolsIndexingDone :: "int \<Rightarrow> string \<Rightarrow> delegate \<Rightarrow> crash + delegate" where
  "OnDevToolsIndexingDone request_id path s =
     web_contents_CallClientFunction ''DevToolsAPI.indexingDone''
       (Some (IntegerValue request_id)) (Some (StringValue path)) None
       (s\<lparr>devtools_indexing_jobs := (devtools_indexing_jobs s)(request_id := None)\<rparr>)"

definition OnDevToolsSearchCompleted ::
  "int \<Rightarrow> string \<Rightarrow> string list \<Rightarrow> delegate \<Rightarrow> crash + delegate" where
  "OnDevToolsSearchCompleted request_id path file_paths s =
     web_contents_CallClientFunction ''DevToolsAPI.searchCompleted''
       (Some (IntegerValue request_id)) (Some (StringValue path))
       (Some (ListValue (map StringValue file_paths))) s"

definition DevToolsSaveToFile :: "string \<Rightarrow> string \<Rightarrow> bool \<Rightarrow> delegate \<Rightarrow> delegate" where
  "DevToolsSaveToFile url content save_as s =
     (case (saved_files s url, save_as) of
        (Some path, False) \<Rightarrow>
          emit (PostTaskAndReply (Bind_WriteToFile path content) (Call_OnDevToolsSaveToFile url))
            (s\<lparr>saved_files := (saved_files s)(url \<mapsto> path)\<rparr>)
      | _ \<Rightarrow>
          emit (FileEntryPicker (DIR_DEFAULT_DOWNLOADS_Append (env s) url) SELECT_SAVEAS_FILE
                  (Call_OnSaveFileSelected url content) (Call_OnSaveFileSelectionCancelled url)) s)"

definition DevToolsAppendToFile :: "string \<Rightarrow> string \<Rightarrow> delegate \<Rightarrow> delegate" where
  "DevToolsAppendToFile url content s =
     (case saved_files s url of
        None \<Rightarrow> s
      | Some path \<Rightarrow>
          emit (PostTaskAndReply (Bind_AppendToFile path content) (Call_OnDevToolsAppendToFile url)) s)"

text \<open>The first loop of \<^verbatim>\<open>DevToolsRequestFileSystems\<close>, over the map of added paths.\<close>

fun request_file_systems_loop ::
  "(string \<times> string) list \<Rightarrow> FileSystem list \<Rightarrow> delegate \<Rightarrow> crash + (FileSystem list \<times> delegate)" where
  "request_file_systems_loop [] file_systems s = Inr (file_systems, s)"
| "request_file_systems_loop ((path, ty) # rest) file_systems s =
     (case RegisterFileSystem s path of
        Inl e \<Rightarrow> Inl e
      | Inr (file_system_id, s1) \<Rightarrow>
          (case CreateFileSystemStruct s1 ty file_system_id path of
             Inl e \<Rightarrow> Inl e
           | Inr file_system \<Rightarrow>
               request_file_systems_loop rest (file_systems @ [file_system]) s1))"

definition DevToolsRequestFileSystems :: "delegate \<Rightarrow> crash + delegate" where
  "DevToolsRequestFileSystems s =
     (case GetAddedFileSystemPaths s of
        Inl e \<Rightarrow> Inl e
      | Inr file_system_paths \<Rightarrow>
          if file_system_paths = [] then
            web_contents_CallClientFunction ''DevToolsAPI.fileSystemsLoaded''
              (Some (ListValue [])) None None s
          else
            (case request_file_systems_loop file_system_paths [] s of
               Inl e \<Rightarrow> Inl e
             | Inr (file_systems, s1) \<Rightarrow>
                 web_contents_CallClientFunction ''DevToolsAPI.fileSystemsLoaded''
                   (Some (ListValue (map CreateFileSystemValue file_systems))) None None s1))"

definition DevToolsAddFileSystemInteral :: "FilePath \<Rightarrow> string \<Rightarrow> delegate \<Rightarrow> crash + delegate" where
  "DevToolsAddFileSystemInteral path ty s =
     (case RegisterFileSystem s path of
        Inl e \<Rightarrow> Inl e
      | Inr (file_system_id, s1) \<Rightarrow>
          (case IsDevToolsFileSystemAdded s1 path of
             Inl e \<Rightarrow> Inl e
           | Inr added \<Rightarrow>
               if added then Inr s1
               else
                 (case CreateFileSystemStruct s1 ty file_system_id path of
                    Inl e \<Rightarrow> Inl e
                  | Inr file_system \<Rightarrow>
                      (case kDevToolsFileSystemPaths s1 of
                         None \<Rightarrow> Inl NullDictionary
                       | Some d \<Rightarrow>
                           web_contents_CallClientFunction ''DevToolsAPI.fileSystemAdded''
                             (Some (CreateFileSystemValue file_system)) None None
                             (s1\<lparr>kDevToolsFileSystemPaths :=
                                   Some (SetWithoutPathExpansion path (StringValue ty) d)\<rparr>)))))"

definition DevToolsAddFileSystem :: "FilePath \<Rightarrow> string \<Rightarrow> delegate \<Rightarrow> crash + delegate" where
  "DevToolsAddFileSystem path ty s =
     (if path = [] then
        Inr (emit (FileEntryPicker path SELECT_FOLDER
                     (Call_OnAddFileSelected ty) Call_OnAddFileSelectionCancelled) s)
      else DevToolsAddFileSystemInteral path ty s)"

definition DevToolsRemoveFileSystem :: "FilePath \<Rightarrow> delegate \<Rightarrow> crash + delegate" where
  "DevToolsRemoveFileSystem path s =
     (case web_contents s of
        None \<Rightarrow> Inr s
      | Some wc \<Rightarrow>
          (let s1 = emit (RevokeFileSystemByPath path) s
           in case kDevToolsFileSystemPaths s1 of
                None \<Rightarrow> Inl NullDictionary
              | Some d \<Rightarrow>
                  web_contents_CallClientFunction ''DevToolsAPI.fileSystemRemoved''
                    (Some (StringValue path)) None None
                    (s1\<lparr>kDevToolsFileSystemPaths :=
                          Some (RemoveWithoutPathExpansion path d)\<rparr>)))"

definition DevToolsIndexPath :: "int \<Rightarrow> string \<Rightarrow> delegate \<Rightarrow> crash + delegate" where
  "DevToolsIndexPath request_id path s =
     (case IsDevToolsFileSystemAdded s path of
        Inl e \<Rightarrow> Inl e
      | Inr added \<Rightarrow>
          if \<not> added then OnDevToolsIndexingDone request_id path s
          else if devtools_indexing_jobs s request_id \<noteq> None then Inr s
          else
            (let job = length (effects s);
                 s1 = emit (IndexPath path
                              (Call_OnDevToolsIndexingWorkCalculated request_id path)
                              (Call_OnDevToolsIndexingWorked request_id path)
                              (Call_OnDevToolsIndexingDone request_id path)) s
             in Inr (s1\<lparr>devtools_indexing_jobs :=
                          (devtools_indexing_jobs s1)(request_id \<mapsto> job)\<rparr>)))"

definition DevToolsStopIndexing :: "int \<Rightarrow> delegate \<Rightarrow> delegate" where
  "DevToolsStopIndexing request_id s =
     (case devtools_indexing_jobs s request_id of
        None \<Rightarrow> s
      | Some job \<Rightarrow>
          (emit (Stop job) s)
            \<lparr>devtools_indexing_jobs := (devtools_indexing_jobs s)(request_id := None)\<rparr>)"

definition DevToolsSearchInPath :: "int \<Rightarrow> string \<Rightarrow> string \<Rightarrow> delegate \<Rightarrow> crash + delegate" where
  "DevToolsSearchInPath request_id path query s =
     (case IsDevToolsFileSystemAdded s path of
        Inl e \<Rightarrow> Inl e
      | Inr added \<Rightarrow>
          if \<not> added then OnDevToolsSearchCompleted request_id path [] s
          else
            Inr (emit (SearchInPath path query
                         (Call_OnDevToolsSearchCompleted request_id path)) s))"

text \<open>
  \<^verbatim>\<open>DCHECK(!paths.empty())\<close> followed by \<^verbatim>\<open>paths[0]\<close>: an empty vector is a crash.
\<close>

definition OnSaveFileSelected :: "string \<Rightarrow> string \<Rightarrow> FilePath list \<Rightarrow> delegate \<Rightarrow> crash + delegate" where
  "OnSaveFileSelected url content paths s =
     (case paths of
        [] \<Rightarrow> Inl EmptyPaths
      | path # _ \<Rightarrow>
          Inr (emit (PostTaskAndReply (Bind_WriteToFile path content) (Call_OnDevToolsSaveToFile url))
                 (s\<lparr>saved_files := (saved_files s)(url \<mapsto> path)\<rparr>)))"

definition OnSaveFileSelectionCancelled :: "string \<Rightarrow> delegate \<Rightarrow> crash + delegate" where
  "OnSaveFileSelectionCancelled url s =
     web_contents_CallClientFunction ''DevToolsAPI.canceledSaveURL'' (Some (StringValue url)) None None s"

definition OnAddFileSelected :: "string \<Rightarrow> FilePath list \<Rightarrow> delegate \<Rightarrow> crash + delegate" where
  "OnAddFileSelected ty paths s =
     (case paths of
        [] \<Rightarrow> Inl EmptyPaths
      | path # _ \<Rightarrow> DevToolsAddFileSystemInteral path ty s)"

definition OnAddFileSelectionCancelled :: "delegate \<Rightarrow> delegate" where
  "OnAddFileSelectionCancelled s = s"

subsection \<open>Sequences of calls\<close>

fun invoke :: "call \<Rightarrow> delegate \<Rightarrow> crash + delegate" where
  "invoke (Call_DevToolsSaveToFile url content save_as) s = Inr (DevToolsSaveToFile url content save_as s)"
| "invoke (Call_DevToolsAppendToFile url content) s = Inr (DevToolsAppendToFile url content s)"
| "invoke Call_DevToolsRequestFileSystems s = DevToolsRequestFileSystems s"
| "invoke (Call_DevToolsAddFileSystem path ty) s = DevToolsAddFileSystem path ty s"
| "invoke (Call_DevToolsRemoveFileSystem path) s = DevToolsRemoveFileSystem path s"
| "invoke (Call_DevToolsIndexPath request_id path) s = DevToolsIndexPath request_id path s"
| "invoke (Call_DevToolsStopIndexing request_id) s = Inr (DevToolsStopIndexing request_id s)"
| "invoke (Call_DevToolsSearchInPath request_id path query) s = DevToolsSearchInPath request_id path query s"
| "invoke (Call_OnSaveFileSelected url content paths) s = OnSaveFileSelected url content paths s"
| "invoke (Call_OnSaveFileSelectionCancelled url) s = OnSaveFileSelectionCancelled url s"
| "invoke (Call_OnAddFileSelected ty paths) s = OnAddFileSelected ty paths s"
| "invoke Call_OnAddFileSelectionCancelled s = Inr (OnAddFileSelectionCancelled s)"
| "invoke (Call_OnDevToolsSaveToFile url) s = OnDevToolsSaveToFile url s"
| "invoke (Call_OnDevToolsAppendToFile url) s = OnDevToolsAppendToFile url s"
| "invoke (Call_OnDevToolsIndexingWorkCalculated request_id path total_work) s =
     OnDevToolsIndexingWorkCalculated request_id path total_work s"
| "invoke (Call_OnDevToolsIndexingWorked request_id path worked) s =
     OnDevToolsIndexingWorked request_id path worked s"
| "invoke (Call_OnDevToolsIndexingDone request_id path) s = OnDevToolsIndexingDone request_id path s"
| "invoke (Call_OnDevToolsSearchCompleted request_id path file_paths) s =
     OnDevToolsSearchCompleted request_id path file_paths s"

text \<open>A sequence of calls on the control thread; a crash ends it.\<close>

fun run :: "call list \<Rightarrow> delegate \<Rightarrow> crash + delegate" where
  "run [] s = Inr s"
| "run (c # cs) s = (case invoke c s of Inl e \<Rightarrow> Inl e | Inr s1 \<Rightarrow> run cs s1)"

subsection \<open>Vocabulary of the properties\<close>

text \<open>
  The calls one run of \<open>RegisterFileSystem\<close> makes when the web contents exist: the
  registration, the four grants on the new file system and, unless the policy says the
  path is readable already, the grant to read the path.
\<close>

definition register_effects :: "delegate \<Rightarrow> WebContents \<Rightarrow> FilePath \<Rightarrow> effect list" where
  "register_effects s wc path =
     (let file_system_id = RegisterFileSystemForPath_id (env s) (effects s) path;
          rid = renderer_id wc;
          granted =
            [RegisterFileSystemForPath path file_system_id,
             GrantReadFileSystem rid file_system_id,
             GrantWriteFileSystem rid file_system_id,
             GrantCreateFileForFileSystem rid file_system_id,
             GrantDeleteFromFileSystem rid file_system_id]
      in granted @
         (if CanReadFile (env s) (effects s @ granted) rid path then [] else [GrantReadFile rid path]))"

text \<open>
  The effects of \<open>RegisterFileSystem\<close>: a registration with the isolated context or a
  grant of the security policy.
\<close>

fun is_registration :: "effect \<Rightarrow> bool" where
  "is_registration (RegisterFileSystemForPath path file_system_id) = True"
| "is_registration (GrantReadFileSystem rid file_system_id) = True"
| "is_registration (GrantWriteFileSystem rid file_system_id) = True"
| "is_registration (GrantCreateFileForFileSystem rid file_system_id) = True"
| "is_registration (GrantDeleteFromFileSystem rid file_system_id) = True"
| "is_registration (GrantReadFile rid path) = True"
| "is_registration e = False"

text \<open>
  A log in which \<open>path\<close> was registered under some file-system id and the renderer
  \<open>rid\<close> was granted read, write, create and delete on that id.
\<close>

definition registered_and_granted :: "int \<Rightarrow> FilePath \<Rightarrow> effect list \<Rightarrow> bool" where
  "registered_and_granted rid path log =
     (\<exists>file_system_id.
        RegisterFileSystemForPath path file_system_id \<in> set log \<and>
        GrantReadFileSystem rid file_system_id \<in> set log \<and>
        GrantWriteFileSystem rid file_system_id \<in> set log \<and>
        GrantCreateFileForFileSystem rid file_system_id \<in> set log \<and>
        GrantDeleteFromFileSystem rid file_system_id \<in> set log)"

text \<open>
  The \<open>FileSystem\<close> that \<open>DevToolsAddFileSystemInteral\<close> reports for a new path.
\<close>

definition added_file_system :: "delegate \<Rightarrow> WebContents \<Rightarrow> FilePath \<Rightarrow> string \<Rightarrow> FileSystem" where
  "added_file_system s wc path ty =
     \<lparr>type = ty,
      file_system_name =
        GetIsolatedFileSystemName (env s) (origin wc)
          (RegisterFileSystemForPath_id (env s) (effects s) path),
      root_url =
        GetIsolatedFileSystemRootURIString (env s) (origin wc)
          (RegisterFileSystemForPath_id (env s) (effects s) path) kRootName,
      file_system_path = path\<rparr>"



text \<open>
  The calls that ask to add \<open>p\<close>: \<open>DevToolsAddFileSystem\<close> with this path, and the
  folder picker's answer with this path first.
\<close>

fun adds_path :: "FilePath \<Rightarrow> call \<Rightarrow> bool" where
  "adds_path p (Call_DevToolsAddFileSystem path ty) = (path = p)"
| "adds_path p (Call_OnAddFileSelected ty paths) = (case paths of [] \<Rightarrow> False | path # _ \<Rightarrow> path = p)"
| "adds_path p c = False"

text \<open>
  The call that ends a successful selection in the save dialog for \<open>url\<close>.
\<close>

fun selects_path_for :: "string \<Rightarrow> call \<Rightarrow> bool" where
  "selects_path_for url (Call_OnSaveFileSelected u content paths) = (u = url \<and> paths \<noteq> [])"
| "selects_path_for url c = False"

subsection \<open>Example states\<close>

text \<open>
  Collaborators for the examples: the isolated context names a file system after its
  path, the policy says a file is readable once it was granted.
\<close>

definition example_env :: collaborators where
  "example_env =
     \<lparr>RegisterFileSystemForPath_id = (\<lambda>log path. ''fs'' @ path),
      CanReadFile = (\<lambda>log rid path. GrantReadFile rid path \<in> set log),
      GetIsolatedFileSystemName = (\<lambda>origin fsid. origin @ '':Isolated_'' @ fsid),
      GetIsolatedFileSystemRootURIString = (\<lambda>origin fsid root. origin @ fsid @ ''/'' @ root @ ''/''),
      DIR_DEFAULT_DOWNLOADS_Append = (\<lambda>url. ''/home/user/Downloads/'' @ url)\<rparr>"

text \<open>
  A delegate with web contents, one registered path \<open>/a\<close>, no saved file and no job.
\<close>

definition example_delegate :: delegate where
  "example_delegate =
     \<lparr>web_contents = Some \<lparr>renderer_id = 7, origin = ''chrome-devtools://devtools''\<rparr>,
      saved_files = Map.empty,
      devtools_indexing_jobs = Map.empty,
      kDevToolsFileSystemPaths = Some [(''/a'', StringValue '''')],
      env = example_env,
      effects = []\<rparr>"

text \<open>
  \<open>example_delegate\<close> after \<open>DevToolsIndexPath 1 ''/a''\<close>: job 0 runs for request 1.
\<close>

definition example_indexing :: delegate where
  "example_indexing =
     example_delegate
       \<lparr>devtools_indexing_jobs := [1 \<mapsto> 0],
        effects :=
          [IndexPath ''/a'' (Call_OnDevToolsIndexingWorkCalculated 1 ''/a'')
             (Call_OnDevToolsIndexingWorked 1 ''/a'') (Call_OnDevToolsIndexingDone 1 ''/a'')]\<rparr>"

text \<open>
  \<open>example_delegate\<close> after a save of \<open>a.txt\<close> to \<open>/tmp/a.txt\<close>.
\<close>

definition example_saved :: delegate where
  "example_saved = example_delegate\<lparr>saved_files := [''a.txt'' \<mapsto> ''/tmp/a.txt'']\<rparr>"

text \<open>
  \<open>example_delegate\<close> with an empty registry.
\<close>

definition example_empty :: delegate where
  "example_empty = example_delegate\<lparr>kDevToolsFileSystemPaths := Some []\<rparr>"

section \<open>Lemmas\<close>

subsection \<open>Ordered maps and the registry\<close>

lemma emit_fields [simp]:
  "effects (emit e s) = effects s @ [e]"
  "web_contents (emit e s) = web_contents s"
  "saved_files (emit e s) = saved_files s"
  "devtools_indexing_jobs (emit e s) = devtools_indexing_jobs s"
  "kDevToolsFileSystemPaths (emit e s) = kDevToolsFileSystemPaths s"
  "env (emit e s) = env s"
  by (simp_all add: emit_def)

lemma set_map_assign: "set (map_assign k v m) \<subseteq> insert (k, v) (set m)"
  by (induction m) (auto split: if_splits)

lemma map_assign_mem: "(k, v) \<in> set (map_assign k v m)"
  by (induction m) (auto split: if_splits)

lemma map_assign_other: "k' \<noteq> k \<Longrightarrow> (k', v') \<in> set m \<Longrightarrow> (k', v') \<in> set (map_assign k v m)"
  by (induction m) (auto split: if_splits)

lemma keys_map_assign: "fst ` set (map_assign k v m) = insert k (fst ` set m)"
proof (induction m)
  case Nil
  show ?case by simp
next
  case (Cons kv m)
  obtain k' v' where "kv = (k', v')" by (cases kv)
  with Cons show ?case by (simp add: insert_commute)
qed

lemma keys_map_erase: "fst ` set (map_erase k m) = fst ` set m - {k}"
proof (induction m)
  case Nil
  show ?case by simp
next
  case (Cons kv m)
  obtain k' v' where "kv = (k', v')" by (cases kv)
  with Cons show ?case by auto
qed

lemma HasKey_Set [simp]: "HasKey (SetWithoutPathExpansion key v d) key' = (key' = key \<or> HasKey d key')"
  by (simp add: HasKey_def SetWithoutPathExpansion_def keys_map_assign)

lemma HasKey_Remove [simp]: "HasKey (RemoveWithoutPathExpansion key d) key' = (key' \<noteq> key \<and> HasKey d key')"
  by (auto simp add: HasKey_def RemoveWithoutPathExpansion_def keys_map_erase)

lemma added_paths_loop_mem:
  "\<forall>v. (p, v) \<in> set d \<longrightarrow> v = StringValue t \<Longrightarrow>
   p \<in> fst ` set d \<or> (p, t) \<in> set result \<Longrightarrow>
   (p, t) \<in> set (added_paths_loop d result)"
proof (induction d arbitrary: result)
  case Nil
  then show ?case by simp
next
  case (Cons kv d)
  obtain k v where kv: "kv = (k, v)" by (cases kv)
  show ?case
  proof (cases "k = p")
    case True
    with Cons.prems(1) kv have "v = StringValue t" by simp
    with True have "(p, t) \<in> set (map_assign k (case v of StringValue str \<Rightarrow> str | _ \<Rightarrow> []) result)"
      by (simp add: map_assign_mem)
    with Cons.IH [of "map_assign k (case v of StringValue str \<Rightarrow> str | _ \<Rightarrow> []) result"] Cons.prems(1) kv
    show ?thesis by simp
  next
    case False
    with Cons.prems(2) kv
    have "p \<in> fst ` set d \<or>
          (p, t) \<in> set (map_assign k (case v of StringValue str \<Rightarrow> str | _ \<Rightarrow> []) result)"
      by (auto simp add: map_assign_other)
    with Cons.IH [of "map_assign k (case v of StringValue str \<Rightarrow> str | _ \<Rightarrow> []) result"] Cons.prems(1) kv
    show ?thesis by simp
  qed
qed

lemma added_paths_loop_keys:
  "fst ` set (added_paths_loop d result) = fst ` set d \<union> fst ` set result"
  by (induction d result rule: added_paths_loop.induct) (auto simp add: keys_map_assign)

lemma listing_after_Set:
  assumes "\<not> HasKey d p"
  shows "(p, t) \<in> set (added_paths_loop (SetWithoutPathExpansion p (StringValue t) d) [])"
proof (rule added_paths_loop_mem)
  show "\<forall>v. (p, v) \<in> set (SetWithoutPathExpansion p (StringValue t) d) \<longrightarrow> v = StringValue t"
  proof (intro allI impI)
    fix v assume "(p, v) \<in> set (SetWithoutPathExpansion p (StringValue t) d)"
    then have "(p, v) \<in> insert (p, StringValue t) (set d)"
      using set_map_assign [of p "StringValue t" d] by (auto simp add: SetWithoutPathExpansion_def)
    moreover have "(p, v) \<notin> set d"
      using assms by (force simp add: HasKey_def)
    ultimately show "v = StringValue t" by simp
  qed
  show "p \<in> fst ` set (SetWithoutPathExpansion p (StringValue t) d) \<or> (p, t) \<in> set []"
    by (simp add: SetWithoutPathExpansion_def keys_map_assign)
qed

subsection \<open>Registration and the loop of DevToolsRequestFileSystems\<close>

lemma RegisterFileSystem_eq:
  "web_contents s = Some wc \<Longrightarrow>
   RegisterFileSystem s path =
     Inr (RegisterFileSystemForPath_id (env s) (effects s) path,
          s\<lparr>effects := effects s @ register_effects s wc path\<rparr>)"
  by (simp add: RegisterFileSystem_def register_effects_def emit_def Let_def)

lemma register_effects_is_registration:
  "\<forall>e \<in> set (register_effects s wc path). is_registration e"
  by (simp add: register_effects_def Let_def)

lemma register_effects_granted:
  "registered_and_granted (renderer_id wc) path (register_effects s wc path)"
  unfolding registered_and_granted_def
  by (rule exI [of _ "RegisterFileSystemForPath_id (env s) (effects s) path"])
     (simp add: register_effects_def Let_def)

lemma registered_and_granted_mono:
  "registered_and_granted rid path log \<Longrightarrow> set log \<subseteq> set log' \<Longrightarrow> registered_and_granted rid path log'"
  unfolding registered_and_granted_def by blast

lemma RegisterFileSystem_None:
  "web_contents s = None \<Longrightarrow> RegisterFileSystem s path = Inl NullWebContents"
  by (simp add: RegisterFileSystem_def Let_def)

lemma request_file_systems_loop_eq:
  "web_contents s = Some wc \<Longrightarrow>
   \<exists>new added.
     request_file_systems_loop listing file_systems s =
       Inr (file_systems @ added, s\<lparr>effects := effects s @ new\<rparr>) \<and>
     (\<forall>e \<in> set new. is_registration e) \<and>
     map (\<lambda>fs. (file_system_path fs, type fs)) added = listing \<and>
     (\<forall>(path, ty) \<in> set listing. registered_and_granted (renderer_id wc) path new)"
proof (induction listing arbitrary: file_systems s)
  case Nil
  have "request_file_systems_loop [] file_systems s =
          Inr (file_systems @ [], s\<lparr>effects := effects s @ []\<rparr>)"
    by simp
  then show ?case by (intro exI [of _ "[]"]) simp
next
  case (Cons entry listing)
  obtain path ty where entry: "entry = (path, ty)" by (cases entry)
  define fsid where "fsid = RegisterFileSystemForPath_id (env s) (effects s) path"
  define s1 where "s1 = s\<lparr>effects := effects s @ register_effects s wc path\<rparr>"
  have reg: "RegisterFileSystem s path = Inr (fsid, s1)"
    using Cons.prems by (simp add: RegisterFileSystem_eq fsid_def s1_def)
  have wc1: "web_contents s1 = Some wc"
    using Cons.prems by (simp add: s1_def)
  obtain fs where fs: "CreateFileSystemStruct s1 ty fsid path = Inr fs"
    and fs_fields: "file_system_path fs = path" "type fs = ty"
    using wc1 by (simp add: CreateFileSystemStruct_def)
  from Cons.IH [OF wc1, of "file_systems @ [fs]"]
  obtain new added where
    loop: "request_file_systems_loop listing (file_systems @ [fs]) s1 =
             Inr ((file_systems @ [fs]) @ added, s1\<lparr>effects := effects s1 @ new\<rparr>)"
    and new: "\<forall>e \<in> set new. is_registration e"
    and added: "map (\<lambda>fs. (file_system_path fs, type fs)) added = listing"
    and granted: "\<forall>(path, ty) \<in> set listing. registered_and_granted (renderer_id wc) path new"
    by blast
  let ?new = "register_effects s wc path @ new"
  have step: "request_file_systems_loop (entry # listing) file_systems s =
          Inr (file_systems @ (fs # added), s\<lparr>effects := effects s @ ?new\<rparr>)"
    using reg fs loop by (simp add: entry s1_def)
  have all_new: "\<forall>e \<in> set ?new. is_registration e"
    using new register_effects_is_registration [of s wc path] by auto
  have all_added: "map (\<lambda>fs. (file_system_path fs, type fs)) (fs # added) = entry # listing"
    using added fs_fields by (simp add: entry)
  have here: "registered_and_granted (renderer_id wc) path ?new"
    by (rule registered_and_granted_mono [OF register_effects_granted [of wc path s]]) simp
  have rest: "\<forall>(path, ty) \<in> set listing. registered_and_granted (renderer_id wc) path ?new"
    using granted by (auto intro: registered_and_granted_mono)
  have all_granted:
    "\<forall>(path, ty) \<in> set (entry # listing). registered_and_granted (renderer_id wc) path ?new"
    using here rest by (simp add: entry)
  show ?case
    using step all_new all_added all_granted
    by (intro exI [of _ ?new] exI [of _ "fs # added"]) simp
qed

subsection \<open>The member functions when the web contents exist\<close>

lemma CallClientFunction_Some:
  "web_contents s = Some wc \<Longrightarrow>
   web_contents_CallClientFunction name arg1 arg2 arg3 s =
     Inr (s\<lparr>effects := effects s @ [CallClientFunction name arg1 arg2 arg3]\<rparr>)"
  by (simp add: web_contents_CallClientFunction_def emit_def)

lemma CallClientFunction_None:
  "web_contents s = None \<Longrightarrow>
   web_contents_CallClientFunction name arg1 arg2 arg3 s = Inl NullWebContents"
  by (simp add: web_contents_CallClientFunction_def)

lemma GetAddedFileSystemPaths_eq:
  "web_contents s = Some wc \<Longrightarrow>
   GetAddedFileSystemPaths s =
     Inr (case kDevToolsFileSystemPaths s of None \<Rightarrow> [] | Some d \<Rightarrow> added_paths_loop d [])"
  by (simp add: GetAddedFileSystemPaths_def GetPrefService_def split: option.splits)

lemma IsDevToolsFileSystemAdded_eq:
  "web_contents s = Some wc \<Longrightarrow> kDevToolsFileSystemPaths s = Some d \<Longrightarrow>
   IsDevToolsFileSystemAdded s path = Inr (HasKey d path)"
  by (simp add: IsDevToolsFileSystemAdded_def GetPrefService_def)

lemma IsDevToolsFileSystemAdded_Inr:
  "IsDevToolsFileSystemAdded s path = Inr added \<Longrightarrow>
   \<exists>wc d. web_contents s = Some wc \<and> kDevToolsFileSystemPaths s = Some d \<and> added = HasKey d path"
  by (auto simp add: IsDevToolsFileSystemAdded_def GetPrefService_def split: option.splits)

lemma DevToolsAddFileSystemInteral_present:
  "web_contents s = Some wc \<Longrightarrow> kDevToolsFileSystemPaths s = Some d \<Longrightarrow> HasKey d path \<Longrightarrow>
   DevToolsAddFileSystemInteral path ty s =
     Inr (s\<lparr>effects := effects s @ register_effects s wc path\<rparr>)"
  by (simp add: DevToolsAddFileSystemInteral_def RegisterFileSystem_eq IsDevToolsFileSystemAdded_eq)

lemma DevToolsAddFileSystemInteral_absent:
  "web_contents s = Some wc \<Longrightarrow> kDevToolsFileSystemPaths s = Some d \<Longrightarrow> \<not> HasKey d path \<Longrightarrow>
   DevToolsAddFileSystemInteral path ty s =
     Inr (s\<lparr>kDevToolsFileSystemPaths := Some (SetWithoutPathExpansion path (StringValue ty) d),
            effects := effects s @ register_effects s wc path @
              [CallClientFunction ''DevToolsAPI.fileSystemAdded''
                 (Some (CreateFileSystemValue (added_file_system s wc path ty))) None None]\<rparr>)"
  by (simp add: DevToolsAddFileSystemInteral_def RegisterFileSystem_eq IsDevToolsFileSystemAdded_eq
      CreateFileSystemStruct_def CallClientFunction_Some added_file_system_def)

lemma DevToolsAddFileSystemInteral_Inr:
  "DevToolsAddFileSystemInteral path ty s = Inr s' \<Longrightarrow>
   \<exists>wc d. web_contents s = Some wc \<and> kDevToolsFileSystemPaths s = Some d"
  by (cases "web_contents s"; cases "kDevToolsFileSystemPaths s")
     (simp_all add: DevToolsAddFileSystemInteral_def RegisterFileSystem_None RegisterFileSystem_eq
        IsDevToolsFileSystemAdded_def GetPrefService_def)

lemma DevToolsRequestFileSystems_eq:
  assumes "web_contents s = Some wc"
  shows "\<exists>new file_systems.
     DevToolsRequestFileSystems s =
       Inr (s\<lparr>effects := effects s @ new @
              [CallClientFunction ''DevToolsAPI.fileSystemsLoaded''
                 (Some (ListValue (map CreateFileSystemValue file_systems))) None None]\<rparr>) \<and>
     (\<forall>e \<in> set new. is_registration e) \<and>
     (\<forall>listing. GetAddedFileSystemPaths s = Inr listing \<longrightarrow>
        map (\<lambda>fs. (file_system_path fs, type fs)) file_systems = listing \<and>
        (\<forall>(path, ty) \<in> set listing. registered_and_granted (renderer_id wc) path new) \<and>
        (listing = [] \<longrightarrow> new = []))"
proof -
  obtain listing where listing: "GetAddedFileSystemPaths s = Inr listing"
    using assms by (simp add: GetAddedFileSystemPaths_eq)
  show ?thesis
  proof (cases "listing = []")
    case True
    have "DevToolsRequestFileSystems s =
            Inr (s\<lparr>effects := effects s @ [] @
                   [CallClientFunction ''DevToolsAPI.fileSystemsLoaded''
                      (Some (ListValue (map CreateFileSystemValue []))) None None]\<rparr>)"
      using assms listing True by (simp add: DevToolsRequestFileSystems_def CallClientFunction_Some)
    then show ?thesis
      using listing True by (intro exI [of _ "[]"]) simp
  next
    case False
    from request_file_systems_loop_eq [OF assms, of listing "[]"]
    obtain new added where
      loop: "request_file_systems_loop listing [] s = Inr (added, s\<lparr>effects := effects s @ new\<rparr>)"
      and new: "\<forall>e \<in> set new. is_registration e"
      and added: "map (\<lambda>fs. (file_system_path fs, type fs)) added = listing"
      and granted: "\<forall>(path, ty) \<in> set listing. registered_and_granted (renderer_id wc) path new"
      by auto
    have "DevToolsRequestFileSystems s =
            Inr (s\<lparr>effects := effects s @ new @
                   [CallClientFunction ''DevToolsAPI.fileSystemsLoaded''
                      (Some (ListValue (map CreateFileSystemValue added))) None None]\<rparr>)"
      using assms listing False loop
      by (simp add: DevToolsRequestFileSystems_def CallClientFunction_Some)
    then show ?thesis
      using listing False new added granted
      by (intro exI [of _ new] exI [of _ added]) simp
  qed
qed

lemma DevToolsRequestFileSystems_Inr:
  "DevToolsRequestFileSystems s = Inr s' \<Longrightarrow> \<exists>wc. web_contents s = Some wc"
  by (cases "web_contents s")
     (simp_all add: DevToolsRequestFileSystems_def GetAddedFileSystemPaths_def GetPrefService_def)

subsection \<open>What one call preserves\<close>


lemmas member_defs =
  DevToolsSaveToFile_def DevToolsAppendToFile_def DevToolsAddFileSystem_def
  DevToolsRemoveFileSystem_def DevToolsIndexPath_def DevToolsStopIndexing_def
  DevToolsSearchInPath_def OnSaveFileSelected_def OnSaveFileSelectionCancelled_def
  OnAddFileSelected_def OnAddFileSelectionCancelled_def OnDevToolsSaveToFile_def
  OnDevToolsAppendToFile_def OnDevToolsIndexingWorkCalculated_def OnDevToolsIndexingWorked_def
  OnDevToolsIndexingDone_def OnDevToolsSearchCompleted_def
  IsDevToolsFileSystemAdded_def GetPrefService_def web_contents_CallClientFunction_def emit_def

lemma AddInteral_web_contents:
  "DevToolsAddFileSystemInteral path ty s = Inr s' \<Longrightarrow> web_contents s' = web_contents s \<and> env s' = env s \<and> saved_files s' = saved_files s \<and> devtools_indexing_jobs s' = devtools_indexing_jobs s"
proof -
  assume r: "DevToolsAddFileSystemInteral path ty s = Inr s'"
  then obtain wc d where "web_contents s = Some wc" "kDevToolsFileSystemPaths s = Some d"
    using DevToolsAddFileSystemInteral_Inr by blast
  with r show ?thesis
    by (cases "HasKey d path")
       (auto simp add: DevToolsAddFileSystemInteral_present DevToolsAddFileSystemInteral_absent)
qed

lemma Request_frame:
  "DevToolsRequestFileSystems s = Inr s' \<Longrightarrow> web_contents s' = web_contents s \<and> env s' = env s \<and> saved_files s' = saved_files s \<and> devtools_indexing_jobs s' = devtools_indexing_jobs s \<and> kDevToolsFileSystemPaths s' = kDevToolsFileSystemPaths s"
proof -
  assume r: "DevToolsRequestFileSystems s = Inr s'"
  then obtain wc where "web_contents s = Some wc"
    using DevToolsRequestFileSystems_Inr by blast
  from DevToolsRequestFileSystems_eq [OF this] r show ?thesis by auto
qed

lemma invoke_frame:
  assumes "invoke c s = Inr s'"
  shows "web_contents s' = web_contents s \<and> env s' = env s"
proof (cases c)
  case Call_DevToolsRequestFileSystems
  with assms show ?thesis by (simp add: Request_frame)
next
  case (Call_DevToolsAddFileSystem path ty)
  with assms show ?thesis
    by (auto simp add: DevToolsAddFileSystem_def emit_def AddInteral_web_contents split: if_splits)
next
  case (Call_OnAddFileSelected ty paths)
  with assms show ?thesis
    by (auto simp add: OnAddFileSelected_def AddInteral_web_contents split: list.splits)
qed (insert assms, auto simp add: member_defs Let_def split: option.splits if_splits list.splits bool.splits sum.splits)

lemmas member_splits = option.splits if_splits list.splits bool.splits sum.splits

lemma AddInteral_registry:
  assumes "DevToolsAddFileSystemInteral path ty s = Inr s'"
    and "kDevToolsFileSystemPaths s = Some d"
  shows "\<exists>d'. kDevToolsFileSystemPaths s' = Some d' \<and> (\<forall>p. HasKey d' p \<longrightarrow> HasKey d p \<or> path = p)"
proof -
  obtain wc where "web_contents s = Some wc"
    using assms(1) DevToolsAddFileSystemInteral_Inr by blast
  with assms show ?thesis
    by (cases "HasKey d path")
       (auto simp add: DevToolsAddFileSystemInteral_present DevToolsAddFileSystemInteral_absent)
qed

lemma invoke_registry:
  assumes "invoke c s = Inr s'"
    and "kDevToolsFileSystemPaths s = Some d"
  shows "\<exists>d'. kDevToolsFileSystemPaths s' = Some d' \<and>
           (\<forall>p. HasKey d' p \<longrightarrow> HasKey d p \<or> adds_path p c)"
proof (cases c)
  case Call_DevToolsRequestFileSystems
  with assms show ?thesis by (auto dest: Request_frame)
next
  case (Call_DevToolsAddFileSystem path ty)
  show ?thesis
  proof (cases "path = []")
    case True
    with assms Call_DevToolsAddFileSystem show ?thesis
      by (simp add: DevToolsAddFileSystem_def emit_def) auto
  next
    case False
    with assms Call_DevToolsAddFileSystem
    have "DevToolsAddFileSystemInteral path ty s = Inr s'"
      by (simp add: DevToolsAddFileSystem_def)
    from AddInteral_registry [OF this assms(2)] Call_DevToolsAddFileSystem
    show ?thesis by simp
  qed
next
  case (Call_OnAddFileSelected ty paths)
  with assms obtain path rest where paths: "paths = path # rest"
    by (cases paths) (simp_all add: OnAddFileSelected_def)
  with assms Call_OnAddFileSelected
  have "DevToolsAddFileSystemInteral path ty s = Inr s'"
    by (simp add: OnAddFileSelected_def)
  from AddInteral_registry [OF this assms(2)] Call_OnAddFileSelected paths
  show ?thesis by simp
qed (insert assms, auto simp add: member_defs Let_def split: member_splits)

lemma invoke_saved_files:
  assumes "invoke c s = Inr s'"
    and "\<not> selects_path_for url c"
  shows "saved_files s' url = saved_files s url"
proof (cases c)
  case Call_DevToolsRequestFileSystems
  with assms show ?thesis by (auto dest: Request_frame)
next
  case (Call_DevToolsAddFileSystem path ty)
  with assms show ?thesis
    by (auto simp add: DevToolsAddFileSystem_def emit_def dest: AddInteral_web_contents split: if_splits)
next
  case (Call_OnAddFileSelected ty paths)
  with assms show ?thesis
    by (auto simp add: OnAddFileSelected_def dest: AddInteral_web_contents split: list.splits)
qed (insert assms, auto simp add: member_defs Let_def split: member_splits)






subsection \<open>What a sequence of calls preserves\<close>

lemma run_frame:
  "run cs s = Inr s' \<Longrightarrow> web_contents s' = web_contents s \<and> env s' = env s"
proof (induction cs arbitrary: s)
  case Nil
  then show ?case by simp
next
  case (Cons c cs)
  then obtain s1 where "invoke c s = Inr s1" and "run cs s1 = Inr s'"
    by (auto split: sum.splits)
  with Cons.IH [of s1] invoke_frame [of c s s1] show ?case by simp
qed

lemma run_registry:
  "run cs s = Inr s' \<Longrightarrow> kDevToolsFileSystemPaths s = Some d \<Longrightarrow> \<not> HasKey d p \<Longrightarrow>
   \<forall>c \<in> set cs. \<not> adds_path p c \<Longrightarrow>
   \<exists>d'. kDevToolsFileSystemPaths s' = Some d' \<and> \<not> HasKey d' p"
proof (induction cs arbitrary: s d)
  case Nil
  then show ?case by simp
next
  case (Cons c cs)
  then obtain s1 where step: "invoke c s = Inr s1" and rest: "run cs s1 = Inr s'"
    by (auto split: sum.splits)
  from invoke_registry [OF step Cons.prems(2)] Cons.prems(3,4)
  obtain d1 where "kDevToolsFileSystemPaths s1 = Some d1" and "\<not> HasKey d1 p"
    by auto
  with Cons.IH [OF rest] Cons.prems(4) show ?case by simp
qed

lemma run_saved_files:
  "run cs s = Inr s' \<Longrightarrow> \<forall>c \<in> set cs. \<not> selects_path_for url c \<Longrightarrow>
   saved_files s' url = saved_files s url"
proof (induction cs arbitrary: s)
  case Nil
  then show ?case by simp
next
  case (Cons c cs)
  then obtain s1 where step: "invoke c s = Inr s1" and rest: "run cs s1 = Inr s'"
    by (auto split: sum.splits)
  from invoke_saved_files [OF step, of url] Cons.IH [OF rest] Cons.prems(2)
  show ?case by simp
qed


section \<open>The claims\<close>

subsection \<open>C1: one tracked job per request id\<close>

text \<open>
  Claim C1, evaluated where the code departs from it. From \<open>example_delegate\<close>, whose
  registry holds \<open>/a\<close> only:
  \<^item> \<open>DevToolsIndexPath 1 ''/a''\<close> starts job 0 and tracks it under request 1;
  \<^item> repeated with the registered path, the call is a no-op: the guard on the tracker
    keeps one job for the id;
  \<^item> \<open>DevToolsIndexPath 1 ''/b''\<close>, for a path that is not registered, is not a
    no-op while job 0 runs: it emits \<open>indexingDone(1, /b)\<close> and erases the entry of
    request 1, and the log has no \<open>Stop 0\<close>;
  \<^item> a third \<open>DevToolsIndexPath 1 ''/a''\<close> then passes the guard and starts a second
    job for request 1: the log holds two \<open>IndexPath\<close> calls bound to request 1 and no
    \<open>Stop\<close>, and the tracker knows the second job only.
\<close>

theorem C1_unregistered_index_drops_running_job_and_allows_second:
  "DevToolsIndexPath 1 ''/a'' example_delegate = Inr example_indexing
   \<and> devtools_indexing_jobs example_indexing 1 = Some 0
   \<and> DevToolsIndexPath 1 ''/a'' example_indexing = Inr example_indexing
   \<and> DevToolsIndexPath 1 ''/b'' example_indexing =
       Inr (example_indexing
              \<lparr>devtools_indexing_jobs := Map.empty,
               effects := effects example_indexing @
                 [CallClientFunction ''DevToolsAPI.indexingDone''
                    (Some (IntegerValue 1)) (Some (StringValue ''/b'')) None]\<rparr>)
   \<and> DevToolsIndexPath 1 ''/b'' example_indexing \<noteq> Inr example_indexing
   \<and> run [Call_DevToolsIndexPath 1 ''/a'', Call_DevToolsIndexPath 1 ''/b'',
           Call_DevToolsIndexPath 1 ''/a''] example_delegate =
       Inr (example_delegate
              \<lparr>devtools_indexing_jobs := [1 \<mapsto> 2],
               effects :=
                 [IndexPath ''/a'' (Call_OnDevToolsIndexingWorkCalculated 1 ''/a'')
                    (Call_OnDevToolsIndexingWorked 1 ''/a'') (Call_OnDevToolsIndexingDone 1 ''/a''),
                  CallClientFunction ''DevToolsAPI.indexingDone''
                    (Some (IntegerValue 1)) (Some (StringValue ''/b'')) None,
                  IndexPath ''/a'' (Call_OnDevToolsIndexingWorkCalculated 1 ''/a'')
                    (Call_OnDevToolsIndexingWorked 1 ''/a'') (Call_OnDevToolsIndexingDone 1 ''/a'')]\<rparr>)"
  by (simp add: example_indexing_def example_delegate_def DevToolsIndexPath_def
      IsDevToolsFileSystemAdded_def GetPrefService_def HasKey_def OnDevToolsIndexingDone_def
      web_contents_CallClientFunction_def emit_def Let_def numeral_2_eq_2)

subsection \<open>C2: indexing a path that is not registered\<close>

text \<open>
  Claim C2. With web contents and a registry that does not hold \<open>p\<close>,
  \<open>DevToolsIndexPath request_id p\<close> returns the state with exactly one more effect, the
  notification \<open>indexingDone(request_id, p)\<close>, and with no entry for \<open>request_id\<close> in
  the tracker. No \<open>IndexPath\<close> is asked of the indexer, so no callback of this call can
  emit \<open>indexingWorked\<close>.
\<close>

theorem C2_unregistered_path_reports_done:
  assumes "web_contents s = Some wc"
    and "kDevToolsFileSystemPaths s = Some d"
    and "\<not> HasKey d p"
  shows "DevToolsIndexPath request_id p s =
           Inr (s\<lparr>devtools_indexing_jobs := (devtools_indexing_jobs s)(request_id := None),
                  effects := effects s @
                    [CallClientFunction ''DevToolsAPI.indexingDone''
                       (Some (IntegerValue request_id)) (Some (StringValue p)) None]\<rparr>)"
  using assms
  by (simp add: DevToolsIndexPath_def IsDevToolsFileSystemAdded_def GetPrefService_def
      OnDevToolsIndexingDone_def web_contents_CallClientFunction_def emit_def)

text \<open>
  The theorem of C2 at \<open>example_delegate\<close> and the path \<open>/b\<close>.
\<close>

theorem C2_witness:
  "web_contents example_delegate = Some \<lparr>renderer_id = 7, origin = ''chrome-devtools://devtools''\<rparr>
   \<and> kDevToolsFileSystemPaths example_delegate = Some [(''/a'', StringValue '''')]
   \<and> \<not> HasKey [(''/a'', StringValue '''')] ''/b''
   \<and> DevToolsIndexPath 1 ''/b'' example_delegate =
       Inr (example_delegate\<lparr>devtools_indexing_jobs := (devtools_indexing_jobs example_delegate)(1 := None), effects :=
              [CallClientFunction ''DevToolsAPI.indexingDone''
                 (Some (IntegerValue 1)) (Some (StringValue ''/b'')) None]\<rparr>)"
  using C2_unregistered_path_reports_done [of example_delegate "\<lparr>renderer_id = 7, origin = ''chrome-devtools://devtools''\<rparr>" "[(''/a'', StringValue '''')]" "''/b''" 1]
  by (simp add: example_delegate_def HasKey_def)

subsection \<open>C3: after DevToolsStopIndexing\<close>




subsection \<open>C4: DevToolsSaveToFile\<close>

text \<open>
  Claim C4. \<open>DevToolsSaveToFile\<close> with \<open>save_as\<close> false and a tracked path for the url
  posts the write to that path and opens no picker; the state is otherwise unchanged.
  In every other case (\<open>save_as\<close> true, or no tracked path) it opens the save picker
  and does nothing else. \<open>OnSaveFileSelected\<close> with a selected path stores the path
  for the url and posts the write; the write's reply \<open>OnDevToolsSaveToFile\<close> has not
  run then. No other call changes the path stored for any url.
\<close>

theorem C4_save_reuses_tracked_path_or_prompts:
  "(saved_files s url = Some path \<longrightarrow>
      DevToolsSaveToFile url content False s =
        s\<lparr>effects := effects s @
            [PostTaskAndReply (Bind_WriteToFile path content) (Call_OnDevToolsSaveToFile url)]\<rparr>)
   \<and> (save_as \<or> saved_files s url = None \<longrightarrow>
      DevToolsSaveToFile url content save_as s =
        s\<lparr>effects := effects s @
            [FileEntryPicker (DIR_DEFAULT_DOWNLOADS_Append (env s) url) SELECT_SAVEAS_FILE
               (Call_OnSaveFileSelected url content) (Call_OnSaveFileSelectionCancelled url)]\<rparr>)
   \<and> OnSaveFileSelected url content (selected # others) s =
        Inr (s\<lparr>saved_files := (saved_files s)(url \<mapsto> selected),
               effects := effects s @
                 [PostTaskAndReply (Bind_WriteToFile selected content)
                    (Call_OnDevToolsSaveToFile url)]\<rparr>)
   \<and> (\<forall>c s' u. invoke c s = Inr s' \<and> \<not> selects_path_for u c \<longrightarrow>
          saved_files s' u = saved_files s u)"
proof (intro conjI impI allI)
  assume "saved_files s url = Some path"
  then show "DevToolsSaveToFile url content False s =
        s\<lparr>effects := effects s @
            [PostTaskAndReply (Bind_WriteToFile path content) (Call_OnDevToolsSaveToFile url)]\<rparr>"
    by (simp add: DevToolsSaveToFile_def emit_def map_upd_triv)
next
  assume "save_as \<or> saved_files s url = None"
  then show "DevToolsSaveToFile url content save_as s =
        s\<lparr>effects := effects s @
            [FileEntryPicker (DIR_DEFAULT_DOWNLOADS_Append (env s) url) SELECT_SAVEAS_FILE
               (Call_OnSaveFileSelected url content) (Call_OnSaveFileSelectionCancelled url)]\<rparr>"
    by (auto simp add: DevToolsSaveToFile_def emit_def split: option.splits bool.splits)
next
  show "OnSaveFileSelected url content (selected # others) s =
        Inr (s\<lparr>saved_files := (saved_files s)(url \<mapsto> selected),
               effects := effects s @
                 [PostTaskAndReply (Bind_WriteToFile selected content)
                    (Call_OnDevToolsSaveToFile url)]\<rparr>)"
    by (simp add: OnSaveFileSelected_def emit_def)
next
  fix c s' u
  assume "invoke c s = Inr s' \<and> \<not> selects_path_for u c"
  then show "saved_files s' u = saved_files s u"
    using invoke_saved_files [of c s s' u] by simp
qed

text \<open>
  The theorem of C4 at \<open>example_saved\<close>: \<open>a.txt\<close> is written to its tracked path,
  \<open>b.txt\<close> has none and opens the picker, and an append leaves the mapping alone.
\<close>

theorem C4_witness:
  "saved_files example_saved ''a.txt'' = Some ''/tmp/a.txt''
   \<and> DevToolsSaveToFile ''a.txt'' ''hello'' False example_saved =
       example_saved\<lparr>effects :=
         [PostTaskAndReply (Bind_WriteToFile ''/tmp/a.txt'' ''hello'')
            (Call_OnDevToolsSaveToFile ''a.txt'')]\<rparr>
   \<and> saved_files example_saved ''b.txt'' = None
   \<and> DevToolsSaveToFile ''b.txt'' ''hello'' False example_saved =
       example_saved\<lparr>effects :=
         [FileEntryPicker ''/home/user/Downloads/b.txt'' SELECT_SAVEAS_FILE
            (Call_OnSaveFileSelected ''b.txt'' ''hello'')
            (Call_OnSaveFileSelectionCancelled ''b.txt'')]\<rparr>
   \<and> invoke (Call_DevToolsAppendToFile ''a.txt'' ''!'') example_saved =
       Inr (example_saved\<lparr>effects :=
         [PostTaskAndReply (Bind_AppendToFile ''/tmp/a.txt'' ''!'')
            (Call_OnDevToolsAppendToFile ''a.txt'')]\<rparr>)
   \<and> \<not> selects_path_for ''a.txt'' (Call_DevToolsAppendToFile ''a.txt'' ''!'')
   \<and> saved_files (example_saved\<lparr>effects :=
         [PostTaskAndReply (Bind_AppendToFile ''/tmp/a.txt'' ''!'')
            (Call_OnDevToolsAppendToFile ''a.txt'')]\<rparr>) ''a.txt'' = saved_files example_saved ''a.txt''"
  using C4_save_reuses_tracked_path_or_prompts
    [of example_saved "''a.txt''" "''/tmp/a.txt''" "''hello''" False "''/tmp/b.txt''" "[]"]
    C4_save_reuses_tracked_path_or_prompts
    [of example_saved "''b.txt''" "''/tmp/a.txt''" "''hello''" False "''/tmp/b.txt''" "[]"]
  by (simp add: example_saved_def example_delegate_def example_env_def DevToolsAppendToFile_def emit_def)

subsection \<open>C5: DevToolsAppendToFile without a saved path\<close>

text \<open>
  Claim C5. From a state with no path for \<open>url\<close>, after any sequence of calls without
  a successful selection for \<open>url\<close>, there is still no path for it and
  \<open>DevToolsAppendToFile url content\<close> returns the state unchanged: no task is posted
  and no notification emitted.
\<close>

theorem C5_append_without_saved_path_is_noop:
  assumes "saved_files s url = None"
    and "run cs s = Inr s'"
    and "\<forall>c \<in> set cs. \<not> selects_path_for url c"
  shows "saved_files s' url = None \<and> DevToolsAppendToFile url content s' = s'"
proof -
  from run_saved_files [OF assms(2,3)] assms(1) have "saved_files s' url = None"
    by simp
  then show ?thesis by (simp add: DevToolsAppendToFile_def)
qed

text \<open>
  The theorem of C5 at \<open>example_delegate\<close>: a save of \<open>a.txt\<close> whose dialog is
  cancelled, then an append.
\<close>

theorem C5_witness:
  "saved_files example_delegate ''a.txt'' = None
   \<and> run [Call_DevToolsSaveToFile ''a.txt'' ''hello'' False,
           Call_OnSaveFileSelectionCancelled ''a.txt''] example_delegate =
       Inr (example_delegate\<lparr>effects :=
              [FileEntryPicker ''/home/user/Downloads/a.txt'' SELECT_SAVEAS_FILE
                 (Call_OnSaveFileSelected ''a.txt'' ''hello'')
                 (Call_OnSaveFileSelectionCancelled ''a.txt''),
               CallClientFunction ''DevToolsAPI.canceledSaveURL''
                 (Some (StringValue ''a.txt'')) None None]\<rparr>)
   \<and> \<not> selects_path_for ''a.txt'' (Call_DevToolsSaveToFile ''a.txt'' ''hello'' False)
   \<and> \<not> selects_path_for ''a.txt'' (Call_OnSaveFileSelectionCancelled ''a.txt'')
   \<and> DevToolsAppendToFile ''a.txt'' '' world''
        (example_delegate\<lparr>effects :=
              [FileEntryPicker ''/home/user/Downloads/a.txt'' SELECT_SAVEAS_FILE
                 (Call_OnSaveFileSelected ''a.txt'' ''hello'')
                 (Call_OnSaveFileSelectionCancelled ''a.txt''),
               CallClientFunction ''DevToolsAPI.canceledSaveURL''
                 (Some (StringValue ''a.txt'')) None None]\<rparr>) =
       example_delegate\<lparr>effects :=
              [FileEntryPicker ''/home/user/Downloads/a.txt'' SELECT_SAVEAS_FILE
                 (Call_OnSaveFileSelected ''a.txt'' ''hello'')
                 (Call_OnSaveFileSelectionCancelled ''a.txt''),
               CallClientFunction ''DevToolsAPI.canceledSaveURL''
                 (Some (StringValue ''a.txt'')) None None]\<rparr>"
proof -
  have none: "saved_files example_delegate ''a.txt'' = None"
    by (simp add: example_delegate_def)
  have r: "run [Call_DevToolsSaveToFile ''a.txt'' ''hello'' False,
           Call_OnSaveFileSelectionCancelled ''a.txt''] example_delegate =
       Inr (example_delegate\<lparr>effects :=
              [FileEntryPicker ''/home/user/Downloads/a.txt'' SELECT_SAVEAS_FILE
                 (Call_OnSaveFileSelected ''a.txt'' ''hello'')
                 (Call_OnSaveFileSelectionCancelled ''a.txt''),
               CallClientFunction ''DevToolsAPI.canceledSaveURL''
                 (Some (StringValue ''a.txt'')) None None]\<rparr>)"
    by (simp add: example_delegate_def example_env_def member_defs)
  have calls: "\<forall>c \<in> set [Call_DevToolsSaveToFile ''a.txt'' ''hello'' False,
           Call_OnSaveFileSelectionCancelled ''a.txt'']. \<not> selects_path_for ''a.txt'' c"
    by simp
  from C5_append_without_saved_path_is_noop [OF none r calls, of "'' world''"] none r
  show ?thesis by simp
qed

subsection \<open>C6: membership and listing of the registry\<close>

text \<open>
  Claim C6. From a registry without \<open>p\<close>, after any sequence of calls none of which
  adds \<open>p\<close>, \<open>IsDevToolsFileSystemAdded\<close> returns false for \<open>p\<close>. After
  \<open>DevToolsAddFileSystemInteral p ty\<close> it returns true, and
  \<open>GetAddedFileSystemPaths\<close> lists the pair \<open>(p, ty)\<close>.
\<close>

theorem C6_never_added_path_is_absent_and_add_registers_it:
  assumes "web_contents s = Some wc"
    and "kDevToolsFileSystemPaths s = Some d"
    and "\<not> HasKey d p"
    and "run cs s = Inr s'"
    and "\<forall>c \<in> set cs. \<not> adds_path p c"
  shows "IsDevToolsFileSystemAdded s' p = Inr False
       \<and> (\<exists>s'' listing.
             DevToolsAddFileSystemInteral p ty s' = Inr s'' \<and>
             IsDevToolsFileSystemAdded s'' p = Inr True \<and>
             GetAddedFileSystemPaths s'' = Inr listing \<and> (p, ty) \<in> set listing)"
proof -
  from run_frame [OF assms(4)] assms(1) have wc': "web_contents s' = Some wc"
    by simp
  from run_registry [OF assms(4,2,3,5)]
  obtain d' where d': "kDevToolsFileSystemPaths s' = Some d'" and absent: "\<not> HasKey d' p"
    by blast
  have before: "IsDevToolsFileSystemAdded s' p = Inr False"
    using wc' d' absent by (simp add: IsDevToolsFileSystemAdded_eq)
  let ?d'' = "SetWithoutPathExpansion p (StringValue ty) d'"
  let ?s'' = "s'\<lparr>kDevToolsFileSystemPaths := Some ?d'',
            effects := effects s' @ register_effects s' wc p @
              [CallClientFunction ''DevToolsAPI.fileSystemAdded''
                 (Some (CreateFileSystemValue (added_file_system s' wc p ty))) None None]\<rparr>"
  have add: "DevToolsAddFileSystemInteral p ty s' = Inr ?s''"
    using wc' d' absent by (rule DevToolsAddFileSystemInteral_absent)
  have wc'': "web_contents ?s'' = Some wc" and d'': "kDevToolsFileSystemPaths ?s'' = Some ?d''"
    using wc' by simp_all
  have after: "IsDevToolsFileSystemAdded ?s'' p = Inr True"
    using IsDevToolsFileSystemAdded_eq [OF wc'' d'', of p] by simp
  have listing: "GetAddedFileSystemPaths ?s'' = Inr (added_paths_loop ?d'' [])"
    using GetAddedFileSystemPaths_eq [OF wc''] by simp
  have "(p, ty) \<in> set (added_paths_loop ?d'' [])"
    using absent by (rule listing_after_Set)
  with add after listing have
    "DevToolsAddFileSystemInteral p ty s' = Inr ?s'' \<and>
     IsDevToolsFileSystemAdded ?s'' p = Inr True \<and>
     GetAddedFileSystemPaths ?s'' = Inr (added_paths_loop ?d'' []) \<and>
     (p, ty) \<in> set (added_paths_loop ?d'' [])"
    by simp
  then have "\<exists>s'' listing.
             DevToolsAddFileSystemInteral p ty s' = Inr s'' \<and>
             IsDevToolsFileSystemAdded s'' p = Inr True \<and>
             GetAddedFileSystemPaths s'' = Inr listing \<and> (p, ty) \<in> set listing"
    by blast
  with before show ?thesis by (rule conjI)
qed

text \<open>
  The theorem of C6 at \<open>example_delegate\<close> and the path \<open>/b\<close>, after \<open>/c\<close> was added
  and \<open>/a\<close> removed.
\<close>

theorem C6_witness:
  "web_contents example_delegate = Some \<lparr>renderer_id = 7, origin = ''chrome-devtools://devtools''\<rparr>
   \<and> kDevToolsFileSystemPaths example_delegate = Some [(''/a'', StringValue '''')]
   \<and> \<not> HasKey [(''/a'', StringValue '''')] ''/b''
   \<and> \<not> adds_path ''/b'' (Call_DevToolsAddFileSystem ''/c'' ''automatic'')
   \<and> \<not> adds_path ''/b'' (Call_DevToolsRemoveFileSystem ''/a'')
   \<and> (\<exists>s'. run [Call_DevToolsAddFileSystem ''/c'' ''automatic'',
                   Call_DevToolsRemoveFileSystem ''/a''] example_delegate = Inr s'
          \<and> kDevToolsFileSystemPaths s' = Some [(''/c'', StringValue ''automatic'')]
          \<and> IsDevToolsFileSystemAdded s' ''/b'' = Inr False
          \<and> (\<exists>s'' listing.
                DevToolsAddFileSystemInteral ''/b'' ''overridable'' s' = Inr s'' \<and>
                IsDevToolsFileSystemAdded s'' ''/b'' = Inr True \<and>
                GetAddedFileSystemPaths s'' = Inr listing \<and>
                (''/b'', ''overridable'') \<in> set listing))"
proof -
  have wc: "web_contents example_delegate =
      Some \<lparr>renderer_id = 7, origin = ''chrome-devtools://devtools''\<rparr>"
    and d: "kDevToolsFileSystemPaths example_delegate = Some [(''/a'', StringValue '''')]"
    by (simp_all add: example_delegate_def)
  have absent: "\<not> HasKey [(''/a'', StringValue '''')] ''/b''"
    by (simp add: HasKey_def)
  have calls: "\<forall>c \<in> set [Call_DevToolsAddFileSystem ''/c'' ''automatic'',
      Call_DevToolsRemoveFileSystem ''/a'']. \<not> adds_path ''/b'' c"
    by simp
  have "\<exists>s'. run [Call_DevToolsAddFileSystem ''/c'' ''automatic'',
      Call_DevToolsRemoveFileSystem ''/a''] example_delegate = Inr s' \<and>
      kDevToolsFileSystemPaths s' = Some [(''/c'', StringValue ''automatic'')]"
    by (simp add: example_delegate_def example_env_def DevToolsAddFileSystem_def
        DevToolsAddFileSystemInteral_def RegisterFileSystem_def IsDevToolsFileSystemAdded_def
        GetPrefService_def CreateFileSystemStruct_def web_contents_CallClientFunction_def
        DevToolsRemoveFileSystem_def HasKey_def SetWithoutPathExpansion_def
        RemoveWithoutPathExpansion_def Let_def)
  then obtain s' where r: "run [Call_DevToolsAddFileSystem ''/c'' ''automatic'',
      Call_DevToolsRemoveFileSystem ''/a''] example_delegate = Inr s'"
    and d': "kDevToolsFileSystemPaths s' = Some [(''/c'', StringValue ''automatic'')]"
    by blast
  from C6_never_added_path_is_absent_and_add_registers_it
    [OF wc d absent r calls, of "''overridable''"] wc d absent r d'
  show ?thesis by simp
qed

subsection \<open>C7: adding a path that is present\<close>

text \<open>
  Claim C7. For a path the registry holds, \<open>DevToolsAddFileSystemInteral\<close> changes
  only the log: it registers the path with the isolated context, grants read, write,
  create and delete on the new file system (and read on the path unless the policy has
  it). The registry is unchanged and no notification is emitted.
\<close>

theorem C7_add_of_present_path_only_registers_and_grants:
  assumes "web_contents s = Some wc"
    and "kDevToolsFileSystemPaths s = Some d"
    and "HasKey d path"
  shows "(let file_system_id = RegisterFileSystemForPath_id (env s) (effects s) path;
              rid = renderer_id wc;
              granted =
                [RegisterFileSystemForPath path file_system_id,
                 GrantReadFileSystem rid file_system_id,
                 GrantWriteFileSystem rid file_system_id,
                 GrantCreateFileForFileSystem rid file_system_id,
                 GrantDeleteFromFileSystem rid file_system_id]
          in DevToolsAddFileSystemInteral path ty s =
               Inr (s\<lparr>effects := effects s @ granted @
                      (if CanReadFile (env s) (effects s @ granted) rid path then []
                       else [GrantReadFile rid path])\<rparr>))"
  using assms
  by (simp add: DevToolsAddFileSystemInteral_present register_effects_def Let_def)

text \<open>
  The theorem of C7 at \<open>example_delegate\<close> and its registered path \<open>/a\<close>.
\<close>

theorem C7_witness:
  "web_contents example_delegate = Some \<lparr>renderer_id = 7, origin = ''chrome-devtools://devtools''\<rparr>
   \<and> kDevToolsFileSystemPaths example_delegate = Some [(''/a'', StringValue '''')]
   \<and> HasKey [(''/a'', StringValue '''')] ''/a''
   \<and> DevToolsAddFileSystemInteral ''/a'' ''automatic'' example_delegate =
       Inr (example_delegate\<lparr>effects :=
              [RegisterFileSystemForPath ''/a'' ''fs/a'',
               GrantReadFileSystem 7 ''fs/a'',
               GrantWriteFileSystem 7 ''fs/a'',
               GrantCreateFileForFileSystem 7 ''fs/a'',
               GrantDeleteFromFileSystem 7 ''fs/a'',
               GrantReadFile 7 ''/a'']\<rparr>)"
  using C7_add_of_present_path_only_registers_and_grants
    [of example_delegate "\<lparr>renderer_id = 7, origin = ''chrome-devtools://devtools''\<rparr>"
        "[(''/a'', StringValue '''')]" "''/a''" "''automatic''"]
  by (simp add: example_delegate_def example_env_def HasKey_def Let_def)

subsection \<open>C8: a cancelled save dialog\<close>

text \<open>
  Claim C8. \<open>OnSaveFileSelectionCancelled url\<close> emits \<open>canceledSaveURL(url)\<close> and
  changes nothing else. It is the callback the save picker is given for cancellation:
  a save that prompts, followed by the cancellation, leaves the state with the picker
  and the notification in the log, the same mapping of urls and no posted write.
\<close>

theorem C8_cancelled_save_reports_cancel_and_keeps_state:
  assumes "web_contents s = Some wc"
    and "save_as \<or> saved_files s url = None"
  shows "OnSaveFileSelectionCancelled url s =
           Inr (s\<lparr>effects := effects s @
                  [CallClientFunction ''DevToolsAPI.canceledSaveURL''
                     (Some (StringValue url)) None None]\<rparr>)
       \<and> run [Call_DevToolsSaveToFile url content save_as,
               Call_OnSaveFileSelectionCancelled url] s =
           Inr (s\<lparr>effects := effects s @
                  [FileEntryPicker (DIR_DEFAULT_DOWNLOADS_Append (env s) url) SELECT_SAVEAS_FILE
                     (Call_OnSaveFileSelected url content)
                     (Call_OnSaveFileSelectionCancelled url),
                   CallClientFunction ''DevToolsAPI.canceledSaveURL''
                     (Some (StringValue url)) None None]\<rparr>)"
proof
  show "OnSaveFileSelectionCancelled url s =
           Inr (s\<lparr>effects := effects s @
                  [CallClientFunction ''DevToolsAPI.canceledSaveURL''
                     (Some (StringValue url)) None None]\<rparr>)"
    using assms(1) by (simp add: OnSaveFileSelectionCancelled_def CallClientFunction_Some)
next
  have "DevToolsSaveToFile url content save_as s =
        s\<lparr>effects := effects s @
            [FileEntryPicker (DIR_DEFAULT_DOWNLOADS_Append (env s) url) SELECT_SAVEAS_FILE
               (Call_OnSaveFileSelected url content) (Call_OnSaveFileSelectionCancelled url)]\<rparr>"
    using assms(2)
    by (auto simp add: DevToolsSaveToFile_def emit_def split: option.splits bool.splits)
  then show "run [Call_DevToolsSaveToFile url content save_as,
               Call_OnSaveFileSelectionCancelled url] s =
           Inr (s\<lparr>effects := effects s @
                  [FileEntryPicker (DIR_DEFAULT_DOWNLOADS_Append (env s) url) SELECT_SAVEAS_FILE
                     (Call_OnSaveFileSelected url content)
                     (Call_OnSaveFileSelectionCancelled url),
                   CallClientFunction ''DevToolsAPI.canceledSaveURL''
                     (Some (StringValue url)) None None]\<rparr>)"
    using assms(1) by (simp add: OnSaveFileSelectionCancelled_def CallClientFunction_Some)
qed

text \<open>
  The theorem of C8 at \<open>example_saved\<close>, for a save-as of \<open>a.txt\<close> that is cancelled.
\<close>

theorem C8_witness:
  "web_contents example_saved = Some \<lparr>renderer_id = 7, origin = ''chrome-devtools://devtools''\<rparr>
   \<and> run [Call_DevToolsSaveToFile ''a.txt'' ''hello'' True,
           Call_OnSaveFileSelectionCancelled ''a.txt''] example_saved =
       Inr (example_saved\<lparr>effects :=
              [FileEntryPicker ''/home/user/Downloads/a.txt'' SELECT_SAVEAS_FILE
                 (Call_OnSaveFileSelected ''a.txt'' ''hello'')
                 (Call_OnSaveFileSelectionCancelled ''a.txt''),
               CallClientFunction ''DevToolsAPI.canceledSaveURL''
                 (Some (StringValue ''a.txt'')) None None]\<rparr>)
   \<and> saved_files example_saved ''a.txt'' = Some ''/tmp/a.txt''"
  using C8_cancelled_save_reports_cancel_and_keeps_state
    [of example_saved "\<lparr>renderer_id = 7, origin = ''chrome-devtools://devtools''\<rparr>"
        True "''a.txt''" "''hello''"]
  by (simp add: example_saved_def example_delegate_def example_env_def)

subsection \<open>C9: DevToolsRequestFileSystems\<close>

text \<open>
  Claim C9. With web contents, \<open>DevToolsRequestFileSystems\<close> appends to the log
  registrations and grants only (\<open>new\<close>) and then, last, the notification
  \<open>fileSystemsLoaded\<close>. For every path the registry holds, \<open>new\<close> has a registration of
  the path and the four grants on the registered id, and the delivered list has a file
  system for the path. With no registry or an empty one, nothing is registered or
  granted and the list is empty.
\<close>

theorem C9_request_file_systems_registers_and_grants_then_notifies:
  assumes "web_contents s = Some wc"
  shows "\<exists>new file_systems.
     DevToolsRequestFileSystems s =
       Inr (s\<lparr>effects := effects s @ new @
              [CallClientFunction ''DevToolsAPI.fileSystemsLoaded''
                 (Some (ListValue (map CreateFileSystemValue file_systems))) None None]\<rparr>)
     \<and> (\<forall>e \<in> set new. is_registration e)
     \<and> (\<forall>d path. kDevToolsFileSystemPaths s = Some d \<and> HasKey d path \<longrightarrow>
           registered_and_granted (renderer_id wc) path new \<and>
           path \<in> set (map file_system_path file_systems))
     \<and> (kDevToolsFileSystemPaths s = None \<or> kDevToolsFileSystemPaths s = Some [] \<longrightarrow>
           new = [] \<and> file_systems = [])"
proof -
  let ?listing = "case kDevToolsFileSystemPaths s of None \<Rightarrow> [] | Some d \<Rightarrow> added_paths_loop d []"
  have listing: "GetAddedFileSystemPaths s = Inr ?listing"
    using assms by (rule GetAddedFileSystemPaths_eq)
  from DevToolsRequestFileSystems_eq [OF assms] listing
  obtain new file_systems where
    eq: "DevToolsRequestFileSystems s =
       Inr (s\<lparr>effects := effects s @ new @
              [CallClientFunction ''DevToolsAPI.fileSystemsLoaded''
                 (Some (ListValue (map CreateFileSystemValue file_systems))) None None]\<rparr>)"
    and new: "\<forall>e \<in> set new. is_registration e"
    and fss: "map (\<lambda>fs. (file_system_path fs, type fs)) file_systems = ?listing"
    and granted: "\<forall>(path, ty) \<in> set ?listing. registered_and_granted (renderer_id wc) path new"
    and empty: "?listing = [] \<longrightarrow> new = []"
    by blast
  have paths: "map file_system_path file_systems = map fst ?listing"
  proof -
    have "map fst (map (\<lambda>fs. (file_system_path fs, type fs)) file_systems) = map fst ?listing"
      using fss by simp
    then show ?thesis by (simp add: comp_def)
  qed
  have stored: "registered_and_granted (renderer_id wc) path new \<and>
      path \<in> set (map file_system_path file_systems)"
    if "kDevToolsFileSystemPaths s = Some d \<and> HasKey d path" for d path
  proof -
    from that have d: "kDevToolsFileSystemPaths s = Some d" and key: "path \<in> fst ` set d"
      by (simp_all add: HasKey_def)
    from key have "path \<in> fst ` set (added_paths_loop d [])"
      by (simp add: added_paths_loop_keys)
    then obtain ty where "(path, ty) \<in> set (added_paths_loop d [])"
      by auto
    with granted paths d show ?thesis by force
  qed
  have none: "new = [] \<and> file_systems = []"
    if "kDevToolsFileSystemPaths s = None \<or> kDevToolsFileSystemPaths s = Some []"
  proof -
    from that have "?listing = []" by auto
    with empty fss show ?thesis by simp
  qed
  show ?thesis
    using eq new stored none
    by (intro exI [of _ new] exI [of _ file_systems]) blast
qed

text \<open>
  The theorem of C9 at \<open>example_delegate\<close>, whose registry holds \<open>/a\<close>, and at
  \<open>example_empty\<close>.
\<close>

theorem C9_witness:
  "web_contents example_delegate = Some \<lparr>renderer_id = 7, origin = ''chrome-devtools://devtools''\<rparr>
   \<and> DevToolsRequestFileSystems example_delegate =
       Inr (example_delegate\<lparr>effects :=
              [RegisterFileSystemForPath ''/a'' ''fs/a'',
               GrantReadFileSystem 7 ''fs/a'',
               GrantWriteFileSystem 7 ''fs/a'',
               GrantCreateFileForFileSystem 7 ''fs/a'',
               GrantDeleteFromFileSystem 7 ''fs/a'',
               GrantReadFile 7 ''/a'',
               CallClientFunction ''DevToolsAPI.fileSystemsLoaded''
                 (Some (ListValue
                    [DictionaryValue
                       [(''fileSystemName'', StringValue ''chrome-devtools://devtools:Isolated_fs/a''),
                        (''fileSystemPath'', StringValue ''/a''),
                        (''rootURL'', StringValue ''chrome-devtools://devtoolsfs/a/<root>/''),
                        (''type'', StringValue '''')]])) None None]\<rparr>)
   \<and> web_contents example_empty = Some \<lparr>renderer_id = 7, origin = ''chrome-devtools://devtools''\<rparr>
   \<and> DevToolsRequestFileSystems example_empty =
       Inr (example_empty\<lparr>effects :=
              [CallClientFunction ''DevToolsAPI.fileSystemsLoaded'' (Some (ListValue [])) None None]\<rparr>)"
  using C9_request_file_systems_registers_and_grants_then_notifies
    [of example_delegate "\<lparr>renderer_id = 7, origin = ''chrome-devtools://devtools''\<rparr>"]
    C9_request_file_systems_registers_and_grants_then_notifies
    [of example_empty "\<lparr>renderer_id = 7, origin = ''chrome-devtools://devtools''\<rparr>"]
  by (simp add: example_empty_def example_delegate_def example_env_def
      DevToolsRequestFileSystems_def GetAddedFileSystemPaths_def GetPrefService_def
      RegisterFileSystem_def CreateFileSystemStruct_def CreateFileSystemValue_def SetString_def
      kRootName_def web_contents_CallClientFunction_def emit_def Let_def)

subsection \<open>C10: a cancelled folder picker\<close>

text \<open>
  Claim C10. \<open>DevToolsAddFileSystem\<close> with an empty path opens the folder picker with
  \<open>OnAddFileSelectionCancelled\<close> as its cancellation callback. That callback returns
  any state unchanged, so the request followed by the cancellation leaves exactly
  the state the request left: no notification, no change of the registry or of a
  tracker.
\<close>

theorem C10_cancelled_folder_picker_changes_nothing:
  "DevToolsAddFileSystem [] ty s =
     Inr (s\<lparr>effects := effects s @
            [FileEntryPicker [] SELECT_FOLDER (Call_OnAddFileSelected ty)
               Call_OnAddFileSelectionCancelled]\<rparr>)
   \<and> invoke Call_OnAddFileSelectionCancelled s' = Inr s'
   \<and> run [Call_DevToolsAddFileSystem [] ty, Call_OnAddFileSelectionCancelled] s =
       DevToolsAddFileSystem [] ty s"
  by (simp add: DevToolsAddFileSystem_def OnAddFileSelectionCancelled_def emit_def)

text \<open>
  The theorem of C10 at \<open>example_delegate\<close>.
\<close>

theorem C10_witness:
  "run [Call_DevToolsAddFileSystem [] ''automatic'', Call_OnAddFileSelectionCancelled]
     example_delegate =
     Inr (example_delegate\<lparr>effects :=
            [FileEntryPicker [] SELECT_FOLDER (Call_OnAddFileSelected ''automatic'')
               Call_OnAddFileSelectionCancelled]\<rparr>)"
  using C10_cancelled_folder_picker_changes_nothing
    [of "''automatic''" example_delegate example_delegate]
  by (simp add: example_delegate_def OnAddFileSelectionCancelled_def)

end
